theory Spec2Isabelle
  imports Main "HOL-Library.Multiset"
begin

section \<open>JavaScript values\<close>

text \<open>
  The values that reach the gateway come out of a JSON body, a query string or the
  provider's JSON answer. \<open>JUndefined\<close> is what reading an absent property gives.
  Numbers are restricted to the integers: the code only ever asks whether a number is
  zero, and \<open>parseInt\<close> only produces integers or NaN. \<open>JNum n\<close> stands for the
  number \<open>n\<close> where \<open>n\<close> is one (every integer up to \<open>2^53\<close> in magnitude is).

  A character of a string is a \<open>char\<close>: the characters with a code below 256, each of
  which is one character for the store and one code unit for JavaScript, so that
  \<open>length\<close> counts what both count. Strings with other characters are outside the model.
\<close>

datatype jsval =
    JUndefined
  | JNull
  | JBool bool
  | JNum int
  | JStr string
  | JArr "jsval list"
  | JObj "(string \<times> jsval) list"

text \<open>ToBoolean: what \<open>!v\<close>, \<open>if (v)\<close> and \<open>v || w\<close> test.\<close>

fun truthy :: "jsval \<Rightarrow> bool" where
  "truthy JUndefined = False"
| "truthy JNull = False"
| "truthy (JBool b) = b"
| "truthy (JNum n) = (n \<noteq> 0)"
| "truthy (JStr s) = (s \<noteq> [])"
| "truthy (JArr xs) = True"
| "truthy (JObj kvs) = True"

fun typeof :: "jsval \<Rightarrow> string" where
  "typeof JUndefined = ''undefined''"
| "typeof JNull = ''object''"
| "typeof (JBool b) = ''boolean''"
| "typeof (JNum n) = ''number''"
| "typeof (JStr s) = ''string''"
| "typeof (JArr xs) = ''object''"
| "typeof (JObj kvs) = ''object''"

text \<open>Reading an own property of an object literal: absent gives \<open>undefined\<close>.\<close>

definition get_prop :: "(string \<times> jsval) list \<Rightarrow> string \<Rightarrow> jsval" where
  "get_prop kvs k = (case map_of kvs k of None \<Rightarrow> JUndefined | Some v \<Rightarrow> v)"

text \<open>A string read from the process environment or a header: absent or empty is falsy.\<close>

definition present :: "string option \<Rightarrow> bool" where
  "present v = (case v of None \<Rightarrow> False | Some s \<Rightarrow> s \<noteq> [])"

text \<open>\<open>a || b\<close> on two such strings.\<close>

definition or_else :: "string option \<Rightarrow> string option \<Rightarrow> string option" where
  "or_else a b = (if present a then a else b)"

text \<open>\<open>a || 'literal'\<close>\<close>

definition or_default :: "string option \<Rightarrow> string \<Rightarrow> string" where
  "or_default a d = (case a of None \<Rightarrow> d | Some s \<Rightarrow> if s = [] then d else s)"

text \<open>Decimal rendering of a number, as a template literal does it.\<close>

fun show_nat :: "nat \<Rightarrow> string" where
  "show_nat n =
     (if n < 10 then [''0123456789'' ! n]
      else show_nat (n div 10) @ [''0123456789'' ! (n mod 10)])"

declare show_nat.simps [simp del]

definition show_int :: "int \<Rightarrow> string" where
  "show_int z = (if z < 0 then ''-'' @ show_nat (nat (- z)) else show_nat (nat z))"

fun join_comma :: "string list \<Rightarrow> string" where
  "join_comma [] = []"
| "join_comma [x] = x"
| "join_comma (x # y # ys) = x @ '','' @ join_comma (y # ys)"

text \<open>
  ToString, as \<open>`${v}`\<close> and \<open>parseInt(v)\<close> apply it (a number is printed in full,
  as JavaScript does below \<open>10^21\<close>).
\<close>

fun to_string :: "jsval \<Rightarrow> string" where
  "to_string JUndefined = ''undefined''"
| "to_string JNull = ''null''"
| "to_string (JBool b) = (if b then ''true'' else ''false'')"
| "to_string (JNum n) = show_int n"
| "to_string (JStr s) = s"
| "to_string (JArr xs) =
     join_comma (map (\<lambda>x. if x = JNull \<or> x = JUndefined then [] else to_string x) xs)"
| "to_string (JObj kvs) = ''[object Object]''"

section \<open>Configuration\<close>

record config =
  BOCHAT_API_KEY :: "string option"
  LLM_API_KEY :: "string option"
  LLM_API_URL :: string
  LLM_MODEL :: string
  DATABASE_URL :: "string option"

text \<open>
  \<open>CONFIG\<close> as the module computes it from \<open>process.env\<close> when it is loaded
  (\<open>ALLOWED_ORIGINS\<close> belongs to the CORS middleware, which runs before the routes).
\<close>

definition CONFIG :: "(string \<rightharpoonup> string) \<Rightarrow> config" where
  "CONFIG penv =
     \<lparr> BOCHAT_API_KEY = penv ''BOCHAT_API_KEY'',
       LLM_API_KEY = or_else (penv ''LLM_API_KEY'') (penv ''ANTHROPIC_API_KEY''),
       LLM_API_URL = or_default (penv ''LLM_API_URL'') ''https://api.anthropic.com/v1/messages'',
       LLM_MODEL = or_default (penv ''LLM_MODEL'') ''claude-sonnet-4-20250514'',
       DATABASE_URL = penv ''DATABASE_URL'' \<rparr>"

section \<open>The relational store\<close>

record thread_row =
  t_id :: string
  t_user_email :: string
  t_title :: "string option"
  t_created_at :: nat
  t_updated_at :: nat

record message_row =
  m_id :: string
  m_thread_id :: string
  m_role :: string
  m_content :: string
  m_created_at :: nat

record database =
  threads :: "thread_row list"
  messages :: "message_row list"

text \<open>What \<open>parseInt\<close> returns.\<close>

datatype jsnum = NaN | Finite int

text \<open>The statements the gateway sends, with their parameters as the driver encodes them.\<close>

datatype sql =
    CreateSchema
  | SelectThread string
  | SelectMessages string
  | InsertThread string string
  | InsertMessage string string string string
  | TouchThread string
  | SelectUserThreads string jsnum

text \<open>
  The schema that \<open>getDb\<close> declares. A value fits a column \<open>VARCHAR(n)\<close> when it
  has at most \<open>n\<close> characters or the characters beyond the \<open>n\<close>-th are all spaces,
  which the store then cuts off; otherwise the store raises an error. No text parameter
  may hold the character with code 0.
\<close>

definition fits :: "nat \<Rightarrow> string \<Rightarrow> bool" where
  "fits n s = list_all (\<lambda>c. c = CHR '' '') (drop n s)"

definition has_nul :: "string \<Rightarrow> bool" where
  "has_nul s = (CHR 0x00 \<in> set s)"

text \<open>
  Whether the store refuses a statement for what it holds:
  \<^item> \<open>threads.id\<close> is \<open>VARCHAR(64)\<close> and \<open>threads.user_email\<close> is \<open>VARCHAR(320)\<close>;
  \<^item> \<open>messages.id\<close> is the primary key, \<open>messages.thread_id\<close> is \<open>VARCHAR(64)\<close> and
    references a thread, \<open>messages.role\<close> is \<open>VARCHAR(20)\<close> (the identifiers of the
    generator are taken to be well-formed UUIDs, which the column \<open>id\<close> asks for);
  \<^item> \<open>LIMIT\<close> takes a \<open>bigint\<close> that is not negative.
\<close>

fun refused :: "database \<Rightarrow> sql \<Rightarrow> bool" where
  "refused d CreateSchema = False"
| "refused d (SelectThread i) = has_nul i"
| "refused d (SelectMessages i) = has_nul i"
| "refused d (InsertThread i email) =
     (has_nul i \<or> has_nul email \<or> \<not> fits 64 i \<or> \<not> fits 320 email)"
| "refused d (InsertMessage mid tid r c) =
     (has_nul mid \<or> has_nul tid \<or> has_nul r \<or> has_nul c \<or> \<not> fits 64 tid \<or> \<not> fits 20 r \<or>
      mid \<in> set (map m_id (messages d)) \<or> take 64 tid \<notin> set (map t_id (threads d)))"
| "refused d (TouchThread i) = has_nul i"
| "refused d (SelectUserThreads email lim) =
     (has_nul email \<or> (case lim of NaN \<Rightarrow> True | Finite n \<Rightarrow> n < 0 \<or> 2 ^ 63 \<le> n))"

section \<open>The provider\<close>

record chat_msg =
  role :: string
  content :: jsval

record llm_request =
  rq_url :: string
  rq_headers :: "(string \<times> string) list"
  rq_model :: string
  rq_max_tokens :: nat
  rq_system :: string
  rq_messages :: "chat_msg list"

text \<open>
  A response of \<open>fetch\<close>: its status, and what \<open>response.text()\<close> and
  \<open>response.json()\<close> settle to (\<open>Inl\<close> is the message of the error a rejected
  promise carries).
\<close>

record http_response =
  resp_status :: nat
  resp_text :: "string + string"
  resp_json :: "string + jsval"

datatype fetch_result = NetworkFailure string | Responded http_response

definition resp_ok :: "http_response \<Rightarrow> bool" where
  "resp_ok r = (200 \<le> resp_status r \<and> resp_status r \<le> 299)"

section \<open>The world outside and the state of the process\<close>

datatype event = Query sql | Fetch llm_request

text \<open>
  Everything the code does not decide is a field of the world:
  \<^item> \<open>process_env\<close>: the environment variables;
  \<^item> \<open>system_prompt\<close>: the text of the literal \<open>BO_SYSTEM_PROMPT\<close>;
  \<^item> \<open>db_fail n\<close>: whether the store fails at the statement issued as the \<open>n\<close>-th
  interaction of the process for a reason that is not in the statement (it cannot be
  reached, the connection is lost), with the message of the error;
  \<^item> \<open>db_message q\<close>: the message of the error with which the store refuses the
  statement \<open>q\<close>;
  \<^item> \<open>db_tie n\<close>: the place the store gives a thread among the threads with the same
  sort key in the result of that statement, an order that SQL leaves to the store;
  \<^item> \<open>db_now n\<close>: what \<open>NOW()\<close> is for that statement;
  \<^item> \<open>uuidv4 n\<close>: the \<open>n\<close>-th identifier the generator hands out;
  \<^item> \<open>fetch\<close>: the provider's answer to a request;
  \<^item> \<open>pg_encode\<close>: the driver's text encoding of a parameter that is not a string.
\<close>

record world =
  process_env :: "string \<rightharpoonup> string"
  system_prompt :: string
  db_fail :: "nat \<Rightarrow> string option"
  db_message :: "sql \<Rightarrow> string"
  db_tie :: "nat \<Rightarrow> thread_row \<Rightarrow> nat"
  db_now :: "nat \<Rightarrow> nat"
  uuidv4 :: "nat \<Rightarrow> string"
  fetch :: "llm_request \<Rightarrow> fetch_result"
  pg_encode :: "jsval \<Rightarrow> string"

text \<open>
  \<open>pool\<close> is whether the module variable \<open>pool\<close> holds a connection pool;
  \<open>trace\<close> lists the statements and provider calls issued so far, \<open>uuids\<close> counts the
  identifiers generated, \<open>console\<close> is what was logged.
\<close>

record state =
  pool :: bool
  store :: database
  trace :: "event list"
  uuids :: nat
  console :: "string list"

datatype js_error = JsError string

fun message_of :: "js_error \<Rightarrow> string" where
  "message_of (JsError m) = m"

type_synonym 'a outcome = "(js_error + 'a) \<times> state"

text \<open>\<open>await r\<close> followed by the rest of the function: a rejection ends the function.\<close>

definition await :: "'a outcome \<Rightarrow> ('a \<Rightarrow> state \<Rightarrow> 'b outcome) \<Rightarrow> 'b outcome" where
  "await r k = (case r of (Inl e, s) \<Rightarrow> (Inl e, s) | (Inr a, s) \<Rightarrow> k a s)"

text \<open>
  The text the driver sends for a query parameter: a string as it is, any other value in
  the driver's encoding (\<open>null\<close> and \<open>undefined\<close> are sent as SQL \<open>NULL\<close>, for which
  the encoding stands too; no statement below compares a column with it).
\<close>

definition prepareValue :: "world \<Rightarrow> jsval \<Rightarrow> string" where
  "prepareValue w v = (case v of JStr s \<Rightarrow> s | _ \<Rightarrow> pg_encode w v)"

text \<open>
  \<open>db.query\<close>: the statement is issued; the promise is rejected when the store fails or
  refuses the statement.
\<close>

definition db_query :: "world \<Rightarrow> sql \<Rightarrow> state \<Rightarrow> unit outcome" where
  "db_query w q s =
     (let s' = s\<lparr>trace := trace s @ [Query q]\<rparr>
      in case db_fail w (length (trace s)) of
           Some m \<Rightarrow> (Inl (JsError m), s')
         | None \<Rightarrow>
             if refused (store s) q then (Inl (JsError (db_message w q)), s')
             else (Inr (), s'))"

text \<open>
  The tables are lists of rows in the order of insertion. \<open>SELECT * FROM threads WHERE
  id = $1\<close> and \<open>SELECT role, content FROM messages WHERE thread_id = $1 ORDER BY
  created_at ASC\<close>; SQL leaves the order of rows with equal \<open>created_at\<close> open, here
  they keep the order of insertion.
\<close>

definition thread_rows :: "database \<Rightarrow> string \<Rightarrow> thread_row list" where
  "thread_rows d i = filter (\<lambda>t. t_id t = i) (threads d)"

definition thread_messages :: "database \<Rightarrow> string \<Rightarrow> message_row list" where
  "thread_messages d i = sort_key m_created_at (filter (\<lambda>m. m_thread_id m = i) (messages d))"

definition row_msg :: "message_row \<Rightarrow> chat_msg" where
  "row_msg m = \<lparr> role = m_role m, content = JStr (m_content m) \<rparr>"

text \<open>
  \<open>INSERT INTO threads (id, user_email) ... ON CONFLICT (id) DO NOTHING\<close>, once the
  store has accepted the statement: the values are stored as their columns hold them.
\<close>

definition insert_thread :: "string \<Rightarrow> string \<Rightarrow> nat \<Rightarrow> database \<Rightarrow> database" where
  "insert_thread i email now d =
     (if thread_rows d (take 64 i) \<noteq> [] then d
      else d\<lparr>threads := threads d @
             [\<lparr> t_id = take 64 i, t_user_email = take 320 email, t_title = None,
                t_created_at = now, t_updated_at = now \<rparr>]\<rparr>)"

text \<open>\<open>INSERT INTO messages (id, thread_id, role, content)\<close>\<close>

definition insert_message ::
  "string \<Rightarrow> string \<Rightarrow> string \<Rightarrow> string \<Rightarrow> nat \<Rightarrow> database \<Rightarrow> database" where
  "insert_message mid tid r c now d =
     d\<lparr>messages := messages d @
        [\<lparr> m_id = mid, m_thread_id = take 64 tid, m_role = take 20 r, m_content = c,
           m_created_at = now \<rparr>]\<rparr>"

text \<open>\<open>UPDATE threads SET updated_at = NOW() WHERE id = $1\<close>\<close>

definition touch_thread :: "string \<Rightarrow> nat \<Rightarrow> database \<Rightarrow> database" where
  "touch_thread i now d =
     d\<lparr>threads := map (\<lambda>t. if t_id t = i then t\<lparr>t_updated_at := now\<rparr> else t) (threads d)\<rparr>"

section \<open>getDb, getOrCreateThread, saveMessage\<close>

text \<open>The result is whether the returned \<open>pool\<close> is a pool (\<open>True\<close>) or \<open>null\<close>.\<close>

definition getDb :: "world \<Rightarrow> state \<Rightarrow> bool outcome" where
  "getDb w s =
     (if \<not> pool s \<and> present (DATABASE_URL (CONFIG (process_env w))) then
        await (db_query w CreateSchema (s\<lparr>pool := True\<rparr>)) (\<lambda>_ s1.
          (Inr (pool s1),
           s1\<lparr>console := console s1 @ [''[Database] Connected and initialized'']\<rparr>))
      else (Inr (pool s), s))"

record thread =
  th_threadId :: jsval
  th_messages :: "chat_msg list"

text \<open>\<open>threadId || uuidv4()\<close>\<close>

definition or_uuid :: "world \<Rightarrow> jsval \<Rightarrow> state \<Rightarrow> jsval \<times> state" where
  "or_uuid w threadId s =
     (if truthy threadId then (threadId, s)
      else (JStr (uuidv4 w (uuids s)), s\<lparr>uuids := Suc (uuids s)\<rparr>))"

text \<open>The last three statements of \<open>getOrCreateThread\<close>, which two paths reach.\<close>

definition create_thread :: "world \<Rightarrow> jsval \<Rightarrow> jsval \<Rightarrow> state \<Rightarrow> thread outcome" where
  "create_thread w threadId userEmail s =
     (case or_uuid w threadId s of (newThreadId, s1) \<Rightarrow>
        await (db_query w (InsertThread (prepareValue w newThreadId) (prepareValue w userEmail)) s1)
          (\<lambda>_ s2.
             (Inr \<lparr> th_threadId = newThreadId, th_messages = [] \<rparr>,
              s2\<lparr>store := insert_thread (prepareValue w newThreadId) (prepareValue w userEmail)
                             (db_now w (length (trace s1))) (store s2)\<rparr>)))"

definition getOrCreateThread :: "world \<Rightarrow> jsval \<Rightarrow> jsval \<Rightarrow> state \<Rightarrow> thread outcome" where
  "getOrCreateThread w threadId userEmail s =
     await (getDb w s) (\<lambda>db s1.
       if \<not> db then
         (case or_uuid w threadId s1 of (i, s2) \<Rightarrow> (Inr \<lparr> th_threadId = i, th_messages = [] \<rparr>, s2))
       else if truthy threadId then
         await (db_query w (SelectThread (prepareValue w threadId)) s1) (\<lambda>_ s2.
           if length (thread_rows (store s2) (prepareValue w threadId)) > 0 then
             await (db_query w (SelectMessages (prepareValue w threadId)) s2) (\<lambda>_ s3.
               (Inr \<lparr> th_threadId = threadId,
                      th_messages = map row_msg (thread_messages (store s3) (prepareValue w threadId)) \<rparr>,
                s3))
           else create_thread w threadId userEmail s2)
       else create_thread w threadId userEmail s1)"

definition saveMessage :: "world \<Rightarrow> jsval \<Rightarrow> string \<Rightarrow> jsval \<Rightarrow> state \<Rightarrow> unit outcome" where
  "saveMessage w threadId r c s =
     await (getDb w s) (\<lambda>db s1.
       if \<not> db then (Inr (), s1)
       else
         (let mid = uuidv4 w (uuids s1); s2 = s1\<lparr>uuids := Suc (uuids s1)\<rparr>
          in await (db_query w (InsertMessage mid (prepareValue w threadId) r (prepareValue w c)) s2)
               (\<lambda>_ s3.
                  let s4 = s3\<lparr>store := insert_message mid (prepareValue w threadId) r (prepareValue w c)
                                         (db_now w (length (trace s2))) (store s3)\<rparr>
                  in await (db_query w (TouchThread (prepareValue w threadId)) s4) (\<lambda>_ s5.
                       (Inr (),
                        s5\<lparr>store := touch_thread (prepareValue w threadId)
                                       (db_now w (length (trace s4))) (store s5)\<rparr>)))))"

section \<open>Requests and responses\<close>

text \<open>
  A request as the route's middleware sees it, after the application-wide middleware
  (security headers, CORS, the JSON body parser, the rate limiter of \<open>/v1/\<close>) has let
  it through: the value of the header \<open>x-bochat-api-key\<close>, the caller's address, the
  properties of the parsed JSON body and of the parsed query string.
\<close>

record request =
  api_key_header :: "string option"
  ip :: string
  body :: "(string \<times> jsval) list"
  query :: "(string \<times> jsval) list"

record thread_summary =
  ts_id :: string
  ts_title :: "string option"
  ts_created_at :: nat
  ts_updated_at :: nat

text \<open>
  The JSON documents the routes answer with: \<open>{error, details}\<close> (a \<open>details\<close> that
  is \<open>undefined\<close> is left out), \<open>{reply, threadId}\<close> and \<open>{threads}\<close>.
\<close>

datatype payload =
    ErrorJson string "string option"
  | ChatJson jsval jsval
  | ThreadsJson "thread_summary list"

record response =
  status :: nat
  payload :: payload

section \<open>authenticateRequest\<close>

text \<open>The result is the response sent, or \<open>None\<close> when \<open>next()\<close> is called.\<close>

definition authenticateRequest :: "world \<Rightarrow> request \<Rightarrow> state \<Rightarrow> response option \<times> state" where
  "authenticateRequest w req s =
     (let apiKey = api_key_header req
      in if \<not> present apiKey then
           (Some \<lparr> status = 401, payload = ErrorJson ''Missing X-BOCHAT-API-KEY header'' None \<rparr>, s)
         else if apiKey \<noteq> BOCHAT_API_KEY (CONFIG (process_env w)) then
           (Some \<lparr> status = 403, payload = ErrorJson ''Invalid API key'' None \<rparr>,
            s\<lparr>console := console s @ [''[Auth] Invalid API key attempt from '' @ ip req]\<rparr>)
         else (None, s))"

text \<open>A route registered as \<open>app.METHOD(path, authenticateRequest, handler)\<close>.\<close>

definition protected ::
  "(world \<Rightarrow> request \<Rightarrow> state \<Rightarrow> response \<times> state) \<Rightarrow> world \<Rightarrow> request \<Rightarrow> state \<Rightarrow> response \<times> state" where
  "protected handler w req s =
     (case authenticateRequest w req s of
        (Some res, s') \<Rightarrow> (res, s')
      | (None, s') \<Rightarrow> handler w req s')"

section \<open>callLLM\<close>

definition api_message :: "chat_msg \<Rightarrow> chat_msg" where
  "api_message m = \<lparr> role = (if role m = ''user'' then ''user'' else ''assistant''), content = content m \<rparr>"

text \<open>
  \<open>v.name\<close> for a name that no prototype defines (\<open>content\<close>, \<open>text\<close>): a TypeError
  on \<open>null\<close> and \<open>undefined\<close> (with the engine's message), the own property of an
  object, \<open>undefined\<close> otherwise.
\<close>

fun member :: "jsval \<Rightarrow> string \<Rightarrow> js_error + jsval" where
  "member JUndefined k =
     Inl (JsError (''Cannot read properties of undefined (reading '' @ [CHR 0x27] @ k
                   @ [CHR 0x27] @ '')''))"
| "member JNull k =
     Inl (JsError (''Cannot read properties of null (reading '' @ [CHR 0x27] @ k
                   @ [CHR 0x27] @ '')''))"
| "member (JObj kvs) k = Inr (get_prop kvs k)"
| "member v k = Inr JUndefined"

text \<open>\<open>v?.[0]\<close>\<close>

fun opt_first :: "jsval \<Rightarrow> jsval" where
  "opt_first (JArr xs) = (case xs of [] \<Rightarrow> JUndefined | x # _ \<Rightarrow> x)"
| "opt_first (JStr s) = (case s of [] \<Rightarrow> JUndefined | c # _ \<Rightarrow> JStr [c])"
| "opt_first (JObj kvs) = get_prop kvs ''0''"
| "opt_first v = JUndefined"

text \<open>\<open>v?.text\<close>\<close>

fun opt_text :: "jsval \<Rightarrow> jsval" where
  "opt_text (JObj kvs) = get_prop kvs ''text''"
| "opt_text v = JUndefined"

definition fallback_reply :: string where
  "fallback_reply = ''I hit a snag processing that. Try again?''"

text \<open>\<open>data.content?.[0]?.text || "I hit a snag processing that. Try again?"\<close>\<close>

definition reply_of :: "jsval \<Rightarrow> js_error + jsval" where
  "reply_of data =
     (case member data ''content'' of
        Inl e \<Rightarrow> Inl e
      | Inr c \<Rightarrow>
          (let t = opt_text (opt_first c)
           in Inr (if truthy t then t else JStr fallback_reply)))"

text \<open>The request \<open>fetch\<close> is called with; its body is given before \<open>JSON.stringify\<close>.\<close>

definition llm_request_of :: "world \<Rightarrow> string \<Rightarrow> chat_msg list \<Rightarrow> jsval \<Rightarrow> llm_request" where
  "llm_request_of w key apiMessages userEmail =
     \<lparr> rq_url = LLM_API_URL (CONFIG (process_env w)),
       rq_headers = [(''Content-Type'', ''application/json''),
                     (''x-api-key'', key),
                     (''anthropic-version'', ''2023-06-01'')],
       rq_model = LLM_MODEL (CONFIG (process_env w)),
       rq_max_tokens = 4096,
       rq_system = system_prompt w @ [CHR 0x0A, CHR 0x0A] @ ''Current user: '' @ to_string userEmail,
       rq_messages = apiMessages \<rparr>"

text \<open>What \<open>callLLM\<close> does once \<open>fetch\<close> has settled.\<close>

definition read_response :: "fetch_result \<Rightarrow> state \<Rightarrow> jsval outcome" where
  "read_response fr s =
     (case fr of
        NetworkFailure m \<Rightarrow> (Inl (JsError m), s)
      | Responded response \<Rightarrow>
          if \<not> resp_ok response then
            (case resp_text response of
               Inl m \<Rightarrow> (Inl (JsError m), s)
             | Inr errorText \<Rightarrow>
                 (Inl (JsError (''LLM API error: '' @ show_nat (resp_status response))),
                  s\<lparr>console := console s @
                      [''[LLM] API error: '' @ show_nat (resp_status response)
                       @ '' - '' @ errorText]\<rparr>))
          else
            (case resp_json response of
               Inl m \<Rightarrow> (Inl (JsError m), s)
             | Inr data \<Rightarrow> (reply_of data, s)))"

definition callLLM :: "world \<Rightarrow> chat_msg list \<Rightarrow> jsval \<Rightarrow> state \<Rightarrow> jsval outcome" where
  "callLLM w msgs userEmail s =
     (case LLM_API_KEY (CONFIG (process_env w)) of
        None \<Rightarrow> (Inl (JsError ''LLM API key not configured''), s)
      | Some key \<Rightarrow>
          if key = [] then (Inl (JsError ''LLM API key not configured''), s)
          else
            (let apiMessages = map api_message msgs;
                 rq = llm_request_of w key apiMessages userEmail
             in read_response (fetch w rq) (s\<lparr>trace := trace s @ [Fetch rq]\<rparr>)))"

section \<open>POST /v1/chat\<close>

text \<open>The body of the \<open>try\<close> block.\<close>

definition chat_try :: "world \<Rightarrow> request \<Rightarrow> state \<Rightarrow> response outcome" where
  "chat_try w req s =
     (let userEmail = get_prop (body req) ''userEmail'';
          message = get_prop (body req) ''message'';
          threadId = get_prop (body req) ''threadId''
      in if \<not> truthy message \<or> typeof message \<noteq> ''string'' then
           (Inr \<lparr> status = 400,
                  payload = ErrorJson ''message is required and must be a string'' None \<rparr>, s)
         else if \<not> truthy userEmail then
           (Inr \<lparr> status = 400, payload = ErrorJson ''userEmail is required'' None \<rparr>, s)
         else
           await (getOrCreateThread w threadId userEmail s) (\<lambda>thread s1.
             let conversationHistory = th_messages thread @ [\<lparr> role = ''user'', content = message \<rparr>]
             in await (callLLM w conversationHistory userEmail s1) (\<lambda>reply s2.
                  await (saveMessage w (th_threadId thread) ''user'' message s2) (\<lambda>_ s3.
                    await (saveMessage w (th_threadId thread) ''assistant'' reply s3) (\<lambda>_ s4.
                      (Inr \<lparr> status = 200, payload = ChatJson reply (th_threadId thread) \<rparr>, s4))))))"

text \<open>The \<open>catch\<close> block: the error is logged and a 500 is sent.\<close>

definition chat_catch :: "world \<Rightarrow> js_error \<Rightarrow> state \<Rightarrow> response \<times> state" where
  "chat_catch w error s =
     (\<lparr> status = 500,
        payload = ErrorJson ''Something went wrong on my end. Try again in a sec.''
                    (if process_env w ''NODE_ENV'' = Some ''development''
                     then Some (message_of error) else None) \<rparr>,
      s\<lparr>console := console s @ [''[Chat] Error: '' @ message_of error]\<rparr>)"

definition chat_handler :: "world \<Rightarrow> request \<Rightarrow> state \<Rightarrow> response \<times> state" where
  "chat_handler w req s =
     (case chat_try w req s of
        (Inr res, s') \<Rightarrow> (res, s')
      | (Inl error, s') \<Rightarrow> chat_catch w error s')"

definition post_chat :: "world \<Rightarrow> request \<Rightarrow> state \<Rightarrow> response \<times> state" where
  "post_chat = protected chat_handler"

section \<open>parseInt\<close>

text \<open>
  The built-in \<open>parseInt\<close> with no radix: ToString of the argument, leading white
  space and line terminators skipped, an optional sign, \<open>0x\<close> or \<open>0X\<close> for base 16,
  then the longest run of digits; NaN when there is none; otherwise the number nearest to
  the integer the digits denote.

  The white space and line terminators with a code below 256: tab, line feed, vertical
  tab, form feed, carriage return, space and the no-break space.
\<close>

definition is_space :: "char \<Rightarrow> bool" where
  "is_space c =
     (c \<in> set [CHR 0x09, CHR 0x0A, CHR 0x0B, CHR 0x0C, CHR 0x0D, CHR '' '', CHR 0xA0])"

text \<open>The number of binary digits of a natural number.\<close>

fun bit_len :: "nat \<Rightarrow> nat" where
  "bit_len n = (if n = 0 then 0 else Suc (bit_len (n div 2)))"

declare bit_len.simps [simp del]

text \<open>
  The double nearest to a natural number, ties to the even significand: a number below
  \<open>2^53\<close> is itself, a larger one keeps its 53 leading binary digits, rounded (from
  \<open>2^1024\<close> on the result stands for \<open>Infinity\<close>).
\<close>

definition round_double :: "nat \<Rightarrow> nat" where
  "round_double v =
     (if v < 2 ^ 53 then v
      else
        (let e = bit_len v - 53; q = v div 2 ^ e; r = v mod 2 ^ e
         in if 2 ^ e < 2 * r \<or> (2 * r = 2 ^ e \<and> odd q) then (q + 1) * 2 ^ e else q * 2 ^ e))"

definition digit_val :: "char \<Rightarrow> nat option" where
  "digit_val c =
     (let n = (of_char c :: nat)
      in if 48 \<le> n \<and> n \<le> 57 then Some (n - 48)
         else if 97 \<le> n \<and> n \<le> 122 then Some (n - 87)
         else if 65 \<le> n \<and> n \<le> 90 then Some (n - 55)
         else None)"

definition digit_in :: "nat \<Rightarrow> char \<Rightarrow> nat option" where
  "digit_in radix c =
     (case digit_val c of None \<Rightarrow> None | Some d \<Rightarrow> if d < radix then Some d else None)"

text \<open>The value of the longest prefix of digits, \<open>None\<close> when the first character is no digit.\<close>

fun digits_value :: "nat \<Rightarrow> nat \<Rightarrow> string \<Rightarrow> nat option" where
  "digits_value radix acc [] = None"
| "digits_value radix acc (c # cs) =
     (case digit_in radix c of
        None \<Rightarrow> None
      | Some d \<Rightarrow>
          (case digits_value radix (acc * radix + d) cs of
             None \<Rightarrow> Some (acc * radix + d)
           | Some v \<Rightarrow> Some v))"

definition parseInt_string :: "string \<Rightarrow> jsnum" where
  "parseInt_string str =
     (let s1 = dropWhile is_space str;
          neg = (case s1 of [] \<Rightarrow> False | c # _ \<Rightarrow> c = CHR ''-'');
          s2 = (case s1 of [] \<Rightarrow> [] | c # cs \<Rightarrow> if c = CHR ''-'' \<or> c = CHR ''+'' then cs else s1);
          hex = (take 2 s2 = ''0x'' \<or> take 2 s2 = ''0X'');
          s3 = (if hex then drop 2 s2 else s2)
      in case digits_value (if hex then 16 else 10) 0 s3 of
           None \<Rightarrow> NaN
         | Some v \<Rightarrow> Finite (if neg then - int (round_double v) else int (round_double v)))"

definition parseInt :: "jsval \<Rightarrow> jsnum" where
  "parseInt v = parseInt_string (to_string v)"

section \<open>GET /v1/threads\<close>

text \<open>
  \<open>... FROM threads WHERE user_email = $1 ORDER BY updated_at DESC\<close>, for the statement
  issued as the \<open>k\<close>-th interaction: the threads of the user, the latest first, those
  with the same \<open>updated_at\<close> in the order the store chooses.
\<close>

definition user_threads :: "world \<Rightarrow> nat \<Rightarrow> database \<Rightarrow> string \<Rightarrow> thread_row list" where
  "user_threads w k d email =
     rev (sort_key t_updated_at
            (rev (sort_key (db_tie w k) (filter (\<lambda>t. t_user_email t = email) (threads d)))))"

text \<open>\<open>SELECT id, title, created_at, updated_at\<close>\<close>

definition summary :: "thread_row \<Rightarrow> thread_summary" where
  "summary t = \<lparr> ts_id = t_id t, ts_title = t_title t,
                 ts_created_at = t_created_at t, ts_updated_at = t_updated_at t \<rparr>"

text \<open>\<open>LIMIT $2\<close>, once the store has accepted the statement.\<close>

definition select_user_threads ::
  "world \<Rightarrow> nat \<Rightarrow> database \<Rightarrow> string \<Rightarrow> jsnum \<Rightarrow> thread_summary list" where
  "select_user_threads w k d email lim =
     (case lim of
        NaN \<Rightarrow> []
      | Finite n \<Rightarrow> map summary (take (nat n) (user_threads w k d email)))"

text \<open>\<open>limit = 20\<close> in the destructuring of \<open>req.query\<close>: the default stands in for \<open>undefined\<close>.\<close>

definition query_limit :: "request \<Rightarrow> jsval" where
  "query_limit req = (case get_prop (query req) ''limit'' of JUndefined \<Rightarrow> JNum 20 | v \<Rightarrow> v)"

definition threads_try :: "world \<Rightarrow> request \<Rightarrow> state \<Rightarrow> response outcome" where
  "threads_try w req s =
     (let userEmail = get_prop (query req) ''userEmail'';
          limit = query_limit req
      in await (getDb w s) (\<lambda>db s1.
           if \<not> db \<or> \<not> truthy userEmail then
             (Inr \<lparr> status = 200, payload = ThreadsJson [] \<rparr>, s1)
           else
             await (db_query w (SelectUserThreads (prepareValue w userEmail) (parseInt limit)) s1)
               (\<lambda>_ s2.
                  (Inr \<lparr> status = 200,
                         payload = ThreadsJson
                           (select_user_threads w (length (trace s1)) (store s2)
                              (prepareValue w userEmail) (parseInt limit)) \<rparr>,
                   s2))))"

definition threads_handler :: "world \<Rightarrow> request \<Rightarrow> state \<Rightarrow> response \<times> state" where
  "threads_handler w req s =
     (case threads_try w req s of
        (Inr res, s') \<Rightarrow> (res, s')
      | (Inl error, s') \<Rightarrow>
          (\<lparr> status = 500, payload = ErrorJson ''Failed to fetch threads'' None \<rparr>,
           s'\<lparr>console := console s' @ [''[Threads] Error: '' @ message_of error]\<rparr>))"

definition get_threads :: "world \<Rightarrow> request \<Rightarrow> state \<Rightarrow> response \<times> state" where
  "get_threads = protected threads_handler"

section \<open>A sample deployment\<close>

text \<open>A configured gateway whose store and provider work, a fresh process and a request.\<close>

definition demo_env :: "string \<rightharpoonup> string" where
  "demo_env = [''BOCHAT_API_KEY'' \<mapsto> ''s3cret'', ''LLM_API_KEY'' \<mapsto> ''sk-test'',
               ''DATABASE_URL'' \<mapsto> ''postgres://db'']"

definition demo_answer :: http_response where
  "demo_answer =
     \<lparr> resp_status = 200, resp_text = Inr ''{}'',
       resp_json = Inr (JObj [(''content'',
                      JArr [JObj [(''type'', JStr ''text''), (''text'', JStr ''Hello.'')]])]) \<rparr>"

definition demo_world :: world where
  "demo_world =
     \<lparr> process_env = demo_env,
       system_prompt = ''You are Bo.'',
       db_fail = (\<lambda>n. None),
       db_message = (\<lambda>q. ''the statement was refused''),
       db_tie = (\<lambda>n t. 0),
       db_now = (\<lambda>n. 100 + n),
       uuidv4 = (\<lambda>n. ''uuid-'' @ show_nat n),
       fetch = (\<lambda>rq. Responded demo_answer),
       pg_encode = to_string \<rparr>"

definition init_state :: state where
  "init_state =
     \<lparr> pool = False, store = \<lparr> threads = [], messages = [] \<rparr>, trace = [], uuids = 0,
       console = [] \<rparr>"

definition demo_request :: request where
  "demo_request =
     \<lparr> api_key_header = Some ''s3cret'', ip = ''10.0.0.7'',
       body = [(''userEmail'', JStr ''nick@taptico.com''), (''message'', JStr ''Hello Bo'')],
       query = [] \<rparr>"

text \<open>The same deployment with \<open>BOCHAT_API_KEY\<close> left unset.\<close>

definition keyless_world :: world where
  "keyless_world = demo_world\<lparr>process_env := demo_env(''BOCHAT_API_KEY'' := None)\<rparr>"

text \<open>The same deployment with \<open>DATABASE_URL\<close> left unset.\<close>

definition degraded_world :: world where
  "degraded_world = demo_world\<lparr>process_env := demo_env(''DATABASE_URL'' := None)\<rparr>"



text \<open>What a function leaves alone: the provider requests sent so far and the messages table.\<close>

text \<open>A store that rejects the fourth interaction of the process.\<close>

definition flaky_world :: world where
  "flaky_world =
     demo_world\<lparr>db_fail := (\<lambda>n. if n = 3 then Some ''Connection terminated unexpectedly'' else None)\<rparr>"

text \<open>A provider that answers every request with status 529.\<close>

definition overloaded_answer :: http_response where
  "overloaded_answer =
     \<lparr> resp_status = 529, resp_text = Inr ''overloaded_error: Overloaded'',
       resp_json = Inr (JObj [(''type'', JStr ''error'')]) \<rparr>"

definition overloaded_world :: world where
  "overloaded_world = demo_world\<lparr>fetch := (\<lambda>rq. Responded overloaded_answer)\<rparr>"





text \<open>A store with three threads of one user and one of another, and a request for a page of two.\<close>

definition listing_state :: state where
  "listing_state =
     \<lparr> pool = True,
       store = \<lparr> threads = [\<lparr> t_id = ''t-1'', t_user_email = ''nick@taptico.com'', t_title = None,
                              t_created_at = 10, t_updated_at = 14 \<rparr>,
                            \<lparr> t_id = ''t-2'', t_user_email = ''nick@taptico.com'', t_title = None,
                              t_created_at = 11, t_updated_at = 30 \<rparr>,
                            \<lparr> t_id = ''t-3'', t_user_email = ''eve@example.com'', t_title = None,
                              t_created_at = 12, t_updated_at = 40 \<rparr>,
                            \<lparr> t_id = ''t-4'', t_user_email = ''nick@taptico.com'', t_title = None,
                              t_created_at = 13, t_updated_at = 20 \<rparr>],
                 messages = [] \<rparr>,
       trace = [Query CreateSchema], uuids = 0,
       console = [''[Database] Connected and initialized''] \<rparr>"

definition listing_request :: request where
  "listing_request =
     \<lparr> api_key_header = Some ''s3cret'', ip = ''10.0.0.7'', body = [],
       query = [(''userEmail'', JStr ''nick@taptico.com''), (''limit'', JStr ''2'')] \<rparr>"



section \<open>Notions the properties are stated with\<close>

text \<open>Degraded mode: no connection string is configured, and so no pool was ever made.\<close>

definition degraded :: "world \<Rightarrow> state \<Rightarrow> bool" where
  "degraded w s = (\<not> pool s \<and> \<not> present (DATABASE_URL (CONFIG (process_env w))))"

text \<open>A value that is a string and is not empty.\<close>

fun nonempty_string :: "jsval \<Rightarrow> bool" where
  "nonempty_string (JStr s) = (s \<noteq> [])"
| "nonempty_string v = False"

text \<open>The provider requests among the events of a trace, in order.\<close>

fun fetch_of :: "event \<Rightarrow> llm_request list" where
  "fetch_of (Fetch rq) = [rq]"
| "fetch_of (Query q) = []"

definition fetches :: "event list \<Rightarrow> llm_request list" where
  "fetches evs = concat (map fetch_of evs)"


text \<open>What the store functions leave alone: the provider requests sent so far and the messages table.\<close>

definition quiet :: "state \<Rightarrow> state \<Rightarrow> bool" where
  "quiet s s' = (fetches (trace s') = fetches (trace s) \<and> messages (store s') = messages (store s))"

section \<open>The credential guard\<close>

lemma authenticateRequest_absent:
  "\<not> present (api_key_header req) \<Longrightarrow>
   authenticateRequest w req s =
     (Some \<lparr> status = 401, payload = ErrorJson ''Missing X-BOCHAT-API-KEY header'' None \<rparr>, s)"
  by (simp add: authenticateRequest_def)

lemma authenticateRequest_mismatch:
  "present (api_key_header req) \<Longrightarrow>
   api_key_header req \<noteq> BOCHAT_API_KEY (CONFIG (process_env w)) \<Longrightarrow>
   authenticateRequest w req s =
     (Some \<lparr> status = 403, payload = ErrorJson ''Invalid API key'' None \<rparr>,
      s\<lparr>console := console s @ [''[Auth] Invalid API key attempt from '' @ ip req]\<rparr>)"
  by (simp add: authenticateRequest_def)

lemma authenticateRequest_match:
  "present (api_key_header req) \<Longrightarrow>
   api_key_header req = BOCHAT_API_KEY (CONFIG (process_env w)) \<Longrightarrow>
   authenticateRequest w req s = (None, s)"
  by (simp add: authenticateRequest_def)

lemma demo_key: "BOCHAT_API_KEY (CONFIG (process_env demo_world)) = Some ''s3cret''"
  by (simp add: CONFIG_def demo_world_def demo_env_def)

text \<open>
  C6, as stated, fails: a request that carries the header with an empty value has the
  header, its value differs from the secret \<open>s3cret\<close>, and the answer is 401, not 403.
\<close>

theorem empty_header_is_missing:
  "api_key_header (demo_request\<lparr>api_key_header := Some []\<rparr>) \<noteq> None \<and>
   api_key_header (demo_request\<lparr>api_key_header := Some []\<rparr>)
     \<noteq> BOCHAT_API_KEY (CONFIG (process_env demo_world)) \<and>
   status (fst (post_chat demo_world (demo_request\<lparr>api_key_header := Some []\<rparr>) init_state)) = 401"
  by (simp add: demo_key post_chat_def protected_def authenticateRequest_def present_def)

text \<open>
  C6, amended: on every protected route, a request whose header is missing or empty is
  answered 401 and the state of the process is unchanged (no statement is sent to the
  store, the provider is not called); a request whose header is not empty and differs from
  the secret is answered 403, and the only effect is the line logged with the caller's
  address; a request whose header is not empty and equals the secret is handed to the
  route's handler.
\<close>

theorem authenticateRequest_outcomes:
  "(\<not> present (api_key_header req) \<longrightarrow>
      protected handler w req s =
        (\<lparr> status = 401, payload = ErrorJson ''Missing X-BOCHAT-API-KEY header'' None \<rparr>, s)) \<and>
   (present (api_key_header req) \<and> api_key_header req \<noteq> BOCHAT_API_KEY (CONFIG (process_env w)) \<longrightarrow>
      protected handler w req s =
        (\<lparr> status = 403, payload = ErrorJson ''Invalid API key'' None \<rparr>,
         s\<lparr>console := console s @ [''[Auth] Invalid API key attempt from '' @ ip req]\<rparr>)) \<and>
   (present (api_key_header req) \<and> api_key_header req = BOCHAT_API_KEY (CONFIG (process_env w)) \<longrightarrow>
      protected handler w req s = handler w req s)"
proof (intro conjI impI)
  assume "\<not> present (api_key_header req)"
  then show "protected handler w req s =
      (\<lparr> status = 401, payload = ErrorJson ''Missing X-BOCHAT-API-KEY header'' None \<rparr>, s)"
    by (simp add: protected_def authenticateRequest_absent)
next
  assume "present (api_key_header req) \<and>
          api_key_header req \<noteq> BOCHAT_API_KEY (CONFIG (process_env w))"
  then show "protected handler w req s =
      (\<lparr> status = 403, payload = ErrorJson ''Invalid API key'' None \<rparr>,
       s\<lparr>console := console s @ [''[Auth] Invalid API key attempt from '' @ ip req]\<rparr>)"
    by (simp add: protected_def authenticateRequest_mismatch)
next
  assume "present (api_key_header req) \<and>
          api_key_header req = BOCHAT_API_KEY (CONFIG (process_env w))"
  then have "authenticateRequest w req s = (None, s)"
    by (intro authenticateRequest_match) blast+
  then show "protected handler w req s = handler w req s"
    by (simp add: protected_def)
qed

theorem authenticateRequest_outcomes_witness:
  "post_chat demo_world (demo_request\<lparr>api_key_header := None\<rparr>) init_state =
     (\<lparr> status = 401, payload = ErrorJson ''Missing X-BOCHAT-API-KEY header'' None \<rparr>, init_state) \<and>
   post_chat demo_world (demo_request\<lparr>api_key_header := Some ''guess''\<rparr>) init_state =
     (\<lparr> status = 403, payload = ErrorJson ''Invalid API key'' None \<rparr>,
      init_state\<lparr>console := [''[Auth] Invalid API key attempt from 10.0.0.7'']\<rparr>) \<and>
   post_chat demo_world demo_request init_state = chat_handler demo_world demo_request init_state"
proof -
  have a: "\<not> present (api_key_header (demo_request\<lparr>api_key_header := None\<rparr>))"
    by (simp add: present_def)
  have b: "present (api_key_header (demo_request\<lparr>api_key_header := Some ''guess''\<rparr>)) \<and>
           api_key_header (demo_request\<lparr>api_key_header := Some ''guess''\<rparr>)
             \<noteq> BOCHAT_API_KEY (CONFIG (process_env demo_world))"
    by (simp add: present_def demo_key)
  have c: "present (api_key_header demo_request) \<and>
           api_key_header demo_request = BOCHAT_API_KEY (CONFIG (process_env demo_world))"
    by (simp add: present_def demo_key demo_request_def)
  have "protected chat_handler demo_world (demo_request\<lparr>api_key_header := None\<rparr>) init_state =
      (\<lparr> status = 401, payload = ErrorJson ''Missing X-BOCHAT-API-KEY header'' None \<rparr>, init_state)"
    using a authenticateRequest_outcomes
      [of "demo_request\<lparr>api_key_header := None\<rparr>" chat_handler demo_world init_state]
    by blast
  moreover have
    "protected chat_handler demo_world (demo_request\<lparr>api_key_header := Some ''guess''\<rparr>) init_state =
      (\<lparr> status = 403, payload = ErrorJson ''Invalid API key'' None \<rparr>,
       init_state\<lparr>console := console init_state @
          [''[Auth] Invalid API key attempt from ''
           @ ip (demo_request\<lparr>api_key_header := Some ''guess''\<rparr>)]\<rparr>)"
    using b authenticateRequest_outcomes
      [of "demo_request\<lparr>api_key_header := Some ''guess''\<rparr>" chat_handler demo_world init_state]
    by blast
  moreover have "protected chat_handler demo_world demo_request init_state =
      chat_handler demo_world demo_request init_state"
    using c authenticateRequest_outcomes [of demo_request chat_handler demo_world init_state]
    by blast
  ultimately show ?thesis
    by (simp add: post_chat_def init_state_def demo_request_def)
qed

text \<open>
  C9, as stated, fails: with no secret configured, a request that carries the header with
  an empty value is answered 401, not 403.
\<close>

theorem no_secret_empty_header_401:
  "process_env keyless_world ''BOCHAT_API_KEY'' = None \<and>
   api_key_header (demo_request\<lparr>api_key_header := Some []\<rparr>) = Some [] \<and>
   status (fst (get_threads keyless_world (demo_request\<lparr>api_key_header := Some []\<rparr>) init_state)) = 401"
  by (simp add: keyless_world_def get_threads_def protected_def authenticateRequest_def present_def)

text \<open>
  C9, amended: when \<open>BOCHAT_API_KEY\<close> is not set, no request passes the guard: a request
  that carries the header with a value that is not empty is answered 403, and a request
  without the header, or with an empty one, is answered 401.
\<close>

theorem no_secret_no_entry:
  assumes "process_env w ''BOCHAT_API_KEY'' = None"
  shows "fst (authenticateRequest w req s) \<noteq> None \<and>
         status (fst (protected handler w req s)) = (if present (api_key_header req) then 403 else 401)"
proof -
  have k: "BOCHAT_API_KEY (CONFIG (process_env w)) = None"
    using assms by (simp add: CONFIG_def)
  show ?thesis
  proof (cases "present (api_key_header req)")
    case True
    then have "api_key_header req \<noteq> BOCHAT_API_KEY (CONFIG (process_env w))"
      using k by (auto simp: present_def split: option.splits)
    with True show ?thesis
      by (simp add: protected_def authenticateRequest_mismatch)
  next
    case False
    then show ?thesis
      by (simp add: protected_def authenticateRequest_absent)
  qed
qed

theorem no_secret_no_entry_witness:
  "process_env keyless_world ''BOCHAT_API_KEY'' = None \<and>
   fst (authenticateRequest keyless_world demo_request init_state) \<noteq> None \<and>
   status (fst (post_chat keyless_world demo_request init_state)) = 403 \<and>
   status (fst (post_chat keyless_world (demo_request\<lparr>api_key_header := None\<rparr>) init_state)) = 401"
proof -
  have h: "process_env keyless_world ''BOCHAT_API_KEY'' = None"
    by (simp add: keyless_world_def)
  show ?thesis
    using h no_secret_no_entry [OF h, of demo_request init_state chat_handler]
      no_secret_no_entry [OF h, of "demo_request\<lparr>api_key_header := None\<rparr>" init_state chat_handler]
    by (simp add: post_chat_def present_def demo_request_def)
qed

section \<open>Degraded mode\<close>

lemma show_nat_digit: "n < 10 \<Longrightarrow> show_nat n = [''0123456789'' ! n]"
  by (simp add: show_nat.simps)

lemma getDb_keeps_pool_configured:
  "getDb w s = (r, s') \<Longrightarrow>
   (pool s \<longrightarrow> present (DATABASE_URL (CONFIG (process_env w)))) \<Longrightarrow>
   (pool s' \<longrightarrow> present (DATABASE_URL (CONFIG (process_env w))))"
  by (auto simp: getDb_def await_def db_query_def Let_def split: if_splits option.splits)

lemma getDb_degraded: "degraded w s \<Longrightarrow> getDb w s = (Inr False, s)"
  by (simp add: getDb_def degraded_def)

lemma degraded_demo: "degraded degraded_world init_state"
  by (simp add: degraded_def degraded_world_def init_state_def CONFIG_def present_def demo_env_def)

text \<open>
  C2, as stated, fails: in degraded mode \<open>getOrCreateThread\<close> called with the
  identifier \<open>t-42\<close> returns that identifier, which the caller supplied; it is not the
  identifier the generator would hand out, and the generator is not consulted (the state,
  with its count of generated identifiers, is unchanged).
\<close>

theorem degraded_echoes_identifier:
  "degraded degraded_world init_state \<and>
   getOrCreateThread degraded_world (JStr ''t-42'') (JStr ''nick@taptico.com'') init_state =
     (Inr \<lparr> th_threadId = JStr ''t-42'', th_messages = [] \<rparr>, init_state) \<and>
   JStr ''t-42'' \<noteq> JStr (uuidv4 degraded_world (uuids init_state))"
proof -
  have "getOrCreateThread degraded_world (JStr ''t-42'') (JStr ''nick@taptico.com'') init_state =
      (Inr \<lparr> th_threadId = JStr ''t-42'', th_messages = [] \<rparr>, init_state)"
    using degraded_demo by (simp add: getOrCreateThread_def getDb_degraded await_def or_uuid_def)
  moreover have "JStr ''t-42'' \<noteq> JStr (uuidv4 degraded_world (uuids init_state))"
    by (simp add: degraded_world_def demo_world_def)
  ultimately show ?thesis
    using degraded_demo by simp
qed

text \<open>
  C2, amended: in degraded mode every call to \<open>getOrCreateThread\<close> returns normally,
  without touching the store, with an empty history and with the identifier the caller
  supplied when there is one (a truthy \<open>threadId\<close>), and with a newly generated
  identifier only when there is none; every call to \<open>saveMessage\<close> returns normally
  and changes nothing.
\<close>

theorem degraded_thread_store:
  assumes "degraded w s"
  shows "getOrCreateThread w threadId userEmail s =
           (Inr \<lparr> th_threadId = (if truthy threadId then threadId else JStr (uuidv4 w (uuids s))),
                  th_messages = [] \<rparr>,
            if truthy threadId then s else s\<lparr>uuids := Suc (uuids s)\<rparr>) \<and>
         saveMessage w threadId r c s = (Inr (), s)"
  using assms
  by (simp add: getOrCreateThread_def saveMessage_def getDb_degraded await_def or_uuid_def)

theorem degraded_thread_store_witness:
  "degraded degraded_world init_state \<and>
   getOrCreateThread degraded_world JUndefined (JStr ''nick@taptico.com'') init_state =
     (Inr \<lparr> th_threadId = JStr ''uuid-0'', th_messages = [] \<rparr>, init_state\<lparr>uuids := 1\<rparr>) \<and>
   saveMessage degraded_world (JStr ''uuid-0'') ''user'' (JStr ''Hello Bo'') init_state = (Inr (), init_state)"
proof -
  have i: "uuids init_state = 0"
    by (simp add: init_state_def)
  have u: "uuidv4 degraded_world 0 = ''uuid-0''"
    by (simp add: degraded_world_def demo_world_def show_nat_digit)
  show ?thesis
    using degraded_thread_store [OF degraded_demo, where threadId = JUndefined and userEmail = "JStr ''nick@taptico.com''"]
      degraded_thread_store [OF degraded_demo, where threadId = "JStr ''uuid-0''" and r = "''user''" and c = "JStr ''Hello Bo''"]
    by (simp add: i u degraded_demo)
qed

section \<open>Validation of a chat request\<close>

lemma nonempty_string_iff: "nonempty_string v \<longleftrightarrow> truthy v \<and> typeof v = ''string''"
  by (cases v) simp_all

lemma post_chat_authenticated:
  "present (api_key_header req) \<Longrightarrow>
   api_key_header req = BOCHAT_API_KEY (CONFIG (process_env w)) \<Longrightarrow>
   post_chat w req s = chat_handler w req s"
  by (simp add: post_chat_def protected_def authenticateRequest_def)

lemma chat_handler_bad_message:
  "\<not> nonempty_string (get_prop (body req) ''message'') \<Longrightarrow>
   chat_handler w req s =
     (\<lparr> status = 400, payload = ErrorJson ''message is required and must be a string'' None \<rparr>, s)"
  by (auto simp: nonempty_string_iff chat_handler_def chat_try_def)

lemma chat_handler_bad_email:
  "nonempty_string (get_prop (body req) ''message'') \<Longrightarrow>
   \<not> truthy (get_prop (body req) ''userEmail'') \<Longrightarrow>
   chat_handler w req s =
     (\<lparr> status = 400, payload = ErrorJson ''userEmail is required'' None \<rparr>, s)"
  by (auto simp: nonempty_string_iff chat_handler_def chat_try_def)

lemma chat_try_valid:
  "nonempty_string (get_prop (body req) ''message'') \<Longrightarrow>
   truthy (get_prop (body req) ''userEmail'') \<Longrightarrow>
   chat_try w req s =
     await (getOrCreateThread w (get_prop (body req) ''threadId'') (get_prop (body req) ''userEmail'') s)
       (\<lambda>thread s1.
          await (callLLM w (th_messages thread @ [\<lparr> role = ''user'', content = get_prop (body req) ''message'' \<rparr>])
                   (get_prop (body req) ''userEmail'') s1) (\<lambda>reply s2.
            await (saveMessage w (th_threadId thread) ''user'' (get_prop (body req) ''message'') s2) (\<lambda>_ s3.
              await (saveMessage w (th_threadId thread) ''assistant'' reply s3) (\<lambda>_ s4.
                (Inr \<lparr> status = 200, payload = ChatJson reply (th_threadId thread) \<rparr>, s4)))))"
  by (simp add: nonempty_string_iff chat_try_def Let_def)

lemma chat_handler_valid_status:
  "nonempty_string (get_prop (body req) ''message'') \<Longrightarrow>
   truthy (get_prop (body req) ''userEmail'') \<Longrightarrow>
   status (fst (chat_handler w req s)) = 200 \<or> status (fst (chat_handler w req s)) = 500"
  by (simp add: chat_handler_def chat_catch_def chat_try_valid await_def split: prod.splits sum.splits)

text \<open>
  C7: an authenticated \<open>POST /v1/chat\<close> whose \<open>message\<close> is not a non-empty string
  is answered 400, and so is one whose \<open>userEmail\<close> is empty (absent, or a value
  JavaScript counts as false: \<open>null\<close>, \<open>false\<close>, \<open>0\<close>, the empty string); in both
  cases the state is unchanged, so nothing was sent to the store or the provider.
  Conversely a request with a non-empty string \<open>message\<close> and a non-empty
  \<open>userEmail\<close> is not answered 400.
\<close>

theorem chat_validation:
  assumes "present (api_key_header req)"
    and "api_key_header req = BOCHAT_API_KEY (CONFIG (process_env w))"
  shows "(\<not> nonempty_string (get_prop (body req) ''message'') \<longrightarrow>
            post_chat w req s =
              (\<lparr> status = 400, payload = ErrorJson ''message is required and must be a string'' None \<rparr>, s)) \<and>
         (nonempty_string (get_prop (body req) ''message'') \<and> \<not> truthy (get_prop (body req) ''userEmail'') \<longrightarrow>
            post_chat w req s =
              (\<lparr> status = 400, payload = ErrorJson ''userEmail is required'' None \<rparr>, s)) \<and>
         (nonempty_string (get_prop (body req) ''message'') \<and> truthy (get_prop (body req) ''userEmail'') \<longrightarrow>
            status (fst (post_chat w req s)) \<noteq> 400)"
  using chat_handler_valid_status [of req w s]
  by (auto simp: post_chat_authenticated [OF assms] chat_handler_bad_message chat_handler_bad_email)

lemma demo_auth:
  "present (api_key_header (demo_request\<lparr>body := b\<rparr>))"
  "api_key_header (demo_request\<lparr>body := b\<rparr>) = BOCHAT_API_KEY (CONFIG (process_env demo_world))"
  by (simp_all add: demo_request_def present_def demo_key)

theorem chat_validation_witness:
  "post_chat demo_world (demo_request\<lparr>body := [(''userEmail'', JStr ''nick@taptico.com'')]\<rparr>) init_state =
     (\<lparr> status = 400, payload = ErrorJson ''message is required and must be a string'' None \<rparr>, init_state) \<and>
   post_chat demo_world (demo_request\<lparr>body := [(''message'', JStr ''Hello Bo''), (''userEmail'', JStr [])]\<rparr>) init_state =
     (\<lparr> status = 400, payload = ErrorJson ''userEmail is required'' None \<rparr>, init_state) \<and>
   status (fst (post_chat demo_world
      (demo_request\<lparr>body := [(''userEmail'', JStr ''nick@taptico.com''), (''message'', JStr ''Hello Bo'')]\<rparr>)
      init_state)) \<noteq> 400"
  using chat_validation [OF demo_auth, of "[(''userEmail'', JStr ''nick@taptico.com'')]" init_state]
    chat_validation [OF demo_auth, of "[(''message'', JStr ''Hello Bo''), (''userEmail'', JStr [])]" init_state]
    chat_validation [OF demo_auth, of "[(''userEmail'', JStr ''nick@taptico.com''), (''message'', JStr ''Hello Bo'')]" init_state]
  by (simp add: get_prop_def)

section \<open>The fallback reply\<close>




section \<open>Effects of the store functions and of callLLM\<close>

lemma awaitE:
  assumes "await r k = (x, s')"
  obtains (rejected) e where "r = (Inl e, s')" and "x = Inl e"
        | (settled) a s1 where "r = (Inr a, s1)" and "k a s1 = (x, s')"
  using assms by (auto simp: await_def split: prod.splits sum.splits)

lemma fetches_append [simp]: "fetches (xs @ ys) = fetches xs @ fetches ys"
  by (simp add: fetches_def)

lemma fetches_single [simp]: "fetches [Query q] = []" "fetches [Fetch rq] = [rq]"
  by (simp_all add: fetches_def)

lemma quiet_refl [simp]: "quiet s s"
  by (simp add: quiet_def)

lemma quiet_trans: "quiet s s1 \<Longrightarrow> quiet s1 s2 \<Longrightarrow> quiet s s2"
  by (simp add: quiet_def)

lemma db_query_quiet: "db_query w q s = (r, s') \<Longrightarrow> quiet s s' \<and> store s' = store s"
  by (auto simp: db_query_def quiet_def Let_def split: option.splits if_splits)

lemma getDb_quiet: "getDb w s = (r, s') \<Longrightarrow> quiet s s' \<and> store s' = store s"
  by (auto simp: getDb_def elim!: awaitE dest!: db_query_quiet split: if_splits simp: quiet_def)

lemma create_thread_quiet: "create_thread w t u s = (r, s') \<Longrightarrow> quiet s s'"
  by (auto simp: create_thread_def or_uuid_def insert_thread_def elim!: awaitE dest!: db_query_quiet
      split: if_splits prod.splits simp: quiet_def)

lemma getOrCreateThread_quiet: "getOrCreateThread w t u s = (r, s') \<Longrightarrow> quiet s s'"
  unfolding getOrCreateThread_def
  apply (erule awaitE)
  apply (auto dest!: getDb_quiet)[1]
  apply (auto simp: or_uuid_def split: if_splits elim!: awaitE dest!: getDb_quiet db_query_quiet create_thread_quiet simp: quiet_def)
  done

lemma saveMessage_fetches: "saveMessage w t r c s = (x, s') \<Longrightarrow> fetches (trace s') = fetches (trace s)"
  unfolding saveMessage_def
  apply (erule awaitE)
  apply (auto dest!: getDb_quiet simp: quiet_def)[1]
  apply (auto simp: Let_def split: if_splits elim!: awaitE dest!: getDb_quiet db_query_quiet simp: quiet_def)
  done




lemma chat_try_cases:
  assumes "nonempty_string (get_prop (body req) ''message'')"
    and "truthy (get_prop (body req) ''userEmail'')"
    and "chat_try w req s = (x, s')"
  obtains
    (thread_failed) e where
      "getOrCreateThread w (get_prop (body req) ''threadId'') (get_prop (body req) ''userEmail'') s = (Inl e, s')"
      "x = Inl e"
  | (llm_failed) thread s1 e where
      "getOrCreateThread w (get_prop (body req) ''threadId'') (get_prop (body req) ''userEmail'') s = (Inr thread, s1)"
      "callLLM w (th_messages thread @ [\<lparr> role = ''user'', content = get_prop (body req) ''message'' \<rparr>])
         (get_prop (body req) ''userEmail'') s1 = (Inl e, s')"
      "x = Inl e"
  | (user_unsaved) thread s1 reply s2 e where
      "getOrCreateThread w (get_prop (body req) ''threadId'') (get_prop (body req) ''userEmail'') s = (Inr thread, s1)"
      "callLLM w (th_messages thread @ [\<lparr> role = ''user'', content = get_prop (body req) ''message'' \<rparr>])
         (get_prop (body req) ''userEmail'') s1 = (Inr reply, s2)"
      "saveMessage w (th_threadId thread) ''user'' (get_prop (body req) ''message'') s2 = (Inl e, s')"
      "x = Inl e"
  | (reply_unsaved) thread s1 reply s2 s3 e where
      "getOrCreateThread w (get_prop (body req) ''threadId'') (get_prop (body req) ''userEmail'') s = (Inr thread, s1)"
      "callLLM w (th_messages thread @ [\<lparr> role = ''user'', content = get_prop (body req) ''message'' \<rparr>])
         (get_prop (body req) ''userEmail'') s1 = (Inr reply, s2)"
      "saveMessage w (th_threadId thread) ''user'' (get_prop (body req) ''message'') s2 = (Inr (), s3)"
      "saveMessage w (th_threadId thread) ''assistant'' reply s3 = (Inl e, s')"
      "x = Inl e"
  | (answered) thread s1 reply s2 s3 where
      "getOrCreateThread w (get_prop (body req) ''threadId'') (get_prop (body req) ''userEmail'') s = (Inr thread, s1)"
      "callLLM w (th_messages thread @ [\<lparr> role = ''user'', content = get_prop (body req) ''message'' \<rparr>])
         (get_prop (body req) ''userEmail'') s1 = (Inr reply, s2)"
      "saveMessage w (th_threadId thread) ''user'' (get_prop (body req) ''message'') s2 = (Inr (), s3)"
      "saveMessage w (th_threadId thread) ''assistant'' reply s3 = (Inr (), s')"
      "x = Inr \<lparr> status = 200, payload = ChatJson reply (th_threadId thread) \<rparr>"
  using assms(3) unfolding chat_try_valid [OF assms(1,2)]
  by (elim awaitE) (auto intro: that)

lemma callLLM_cases:
  assumes "callLLM w msgs userEmail s = (x, s')"
  obtains
    (no_key) "x = Inl (JsError ''LLM API key not configured'')" "s' = s"
  | (called) key where
      "LLM_API_KEY (CONFIG (process_env w)) = Some key" "key \<noteq> []"
      "read_response (fetch w (llm_request_of w key (map api_message msgs) userEmail))
         (s\<lparr>trace := trace s @ [Fetch (llm_request_of w key (map api_message msgs) userEmail)]\<rparr>) = (x, s')"
  using assms by (auto simp: callLLM_def Let_def split: option.splits if_splits)

lemma read_response_effect:
  "read_response fr s = (x, s') \<Longrightarrow> trace s' = trace s \<and> store s' = store s"
  by (auto simp: read_response_def split: fetch_result.splits if_splits sum.splits)

lemma read_response_not_ok:
  "\<not> resp_ok r \<Longrightarrow>
   fst (read_response (Responded r) s) =
     Inl (JsError (case resp_text r of Inl m \<Rightarrow> m
                   | Inr errorText \<Rightarrow> ''LLM API error: '' @ show_nat (resp_status r)))"
  by (simp add: read_response_def split: sum.splits)

lemma chat_catch_effect:
  "chat_catch w e s = (res, s') \<Longrightarrow> trace s' = trace s \<and> store s' = store s"
  by (auto simp: chat_catch_def)

lemma chat_handler_invalid:
  "\<not> (nonempty_string (get_prop (body req) ''message'') \<and> truthy (get_prop (body req) ''userEmail'')) \<Longrightarrow>
   status (fst (chat_handler w req s)) = 400 \<and> snd (chat_handler w req s) = s"
  by (cases "nonempty_string (get_prop (body req) ''message'')")
     (simp_all add: chat_handler_bad_message chat_handler_bad_email)

lemma chat_handler_run:
  assumes "chat_handler w req s = (res, s')"
  obtains (sent) "chat_try w req s = (Inr res, s')"
        | (caught) e s1 where "chat_try w req s = (Inl e, s1)" "chat_catch w e s1 = (res, s')"
  using assms by (auto simp: chat_handler_def split: prod.splits sum.splits)

lemma rejected_by_provider:
  assumes run: "chat_handler w req s = (res, s')"
    and called: "fetches (trace s') = fetches (trace s) @ [rq]"
    and answer: "fetch w rq = Responded r" "\<not> resp_ok r"
  shows "status res = 500 \<and>
         payload res =
           ErrorJson ''Something went wrong on my end. Try again in a sec.''
             (if process_env w ''NODE_ENV'' = Some ''development''
              then Some (case resp_text r of Inl m \<Rightarrow> m
                         | Inr errorText \<Rightarrow> ''LLM API error: '' @ show_nat (resp_status r))
              else None) \<and>
         messages (store s') = messages (store s)"
proof -
  have valid: "nonempty_string (get_prop (body req) ''message'')" "truthy (get_prop (body req) ''userEmail'')"
    using chat_handler_invalid [of req w s] run called by auto
  have rejected: "x = Inl (JsError (case resp_text r of Inl m \<Rightarrow> m
                   | Inr errorText \<Rightarrow> ''LLM API error: '' @ show_nat (resp_status r)))"
    if c: "callLLM w msgs u s1 = (x, s2)" and f: "fetches (trace s2) = fetches (trace s1) @ [rq]"
    for msgs u s1 x s2
    using c
  proof (cases rule: callLLM_cases)
    case no_key
    with f show ?thesis by simp
  next
    case (called key)
    from read_response_effect [OF called(3)] f
    have "llm_request_of w key (map api_message msgs) u = rq"
      by simp
    with called(3) answer read_response_not_ok [of r] show ?thesis
      by (metis fst_conv)
  qed
  have llm_store: "store s2 = store s1 \<and> (fetches (trace s2) = fetches (trace s1) \<or>
        (\<exists>rq'. fetches (trace s2) = fetches (trace s1) @ [rq']))"
    if c: "callLLM w msgs u s1 = (x, s2)" for msgs u s1 x s2
    using c
  proof (cases rule: callLLM_cases)
    case no_key
    then show ?thesis by simp
  next
    case (called key)
    from read_response_effect [OF called(3)] show ?thesis by simp
  qed
  from run show ?thesis
  proof (cases rule: chat_handler_run)
    case sent
    from valid sent show ?thesis
    proof (cases rule: chat_try_cases)
      case (answered thread s1 reply s2 s3)
      have "fetches (trace s2) = fetches (trace s1) @ [rq]"
        using called getOrCreateThread_quiet [OF answered(1)] saveMessage_fetches [OF answered(3)]
          saveMessage_fetches [OF answered(4)] llm_store [OF answered(2)]
        by (auto simp: quiet_def)
      from rejected [OF answered(2) this] show ?thesis by simp
    qed simp_all
  next
    case (caught e s1)
    note c = chat_catch_effect [OF caught(2)]
    have res: "res = fst (chat_catch w e s1)"
      using caught(2) by simp
    from valid caught(1) show ?thesis
    proof (cases rule: chat_try_cases)
      case (thread_failed e')
      with called c getOrCreateThread_quiet [OF thread_failed(1)] show ?thesis
        by (simp add: quiet_def)
    next
      case (llm_failed thread s0 e')
      have q: "quiet s s0"
        using getOrCreateThread_quiet [OF llm_failed(1)] .
      have "fetches (trace s1) = fetches (trace s0) @ [rq]"
        using called c q by (simp add: quiet_def)
      from rejected [OF llm_failed(2) this] llm_failed(3)
      have "e = JsError (case resp_text r of Inl m \<Rightarrow> m
                   | Inr errorText \<Rightarrow> ''LLM API error: '' @ show_nat (resp_status r))"
        by simp
      moreover have "messages (store s') = messages (store s)"
        using c q llm_store [OF llm_failed(2)] by (simp add: quiet_def)
      ultimately show ?thesis
        using res by (simp add: chat_catch_def)
    next
      case (user_unsaved thread s0 reply s2 e')
      have "fetches (trace s2) = fetches (trace s0) @ [rq]"
        using called c getOrCreateThread_quiet [OF user_unsaved(1)] saveMessage_fetches [OF user_unsaved(3)]
        by (simp add: quiet_def)
      from rejected [OF user_unsaved(2) this] show ?thesis by simp
    next
      case (reply_unsaved thread s0 reply s2 s3 e')
      have "fetches (trace s2) = fetches (trace s0) @ [rq]"
        using called c getOrCreateThread_quiet [OF reply_unsaved(1)] saveMessage_fetches [OF reply_unsaved(3)]
          saveMessage_fetches [OF reply_unsaved(4)]
        by (simp add: quiet_def)
      from rejected [OF reply_unsaved(2) this] show ?thesis by simp
    qed simp_all
  qed
qed

section \<open>Sample runs\<close>

lemmas run_defs =
  chat_handler_def chat_try_def chat_catch_def get_prop_def getOrCreateThread_def getDb_def await_def
  db_query_def create_thread_def or_uuid_def prepareValue_def callLLM_def read_response_def
  llm_request_of_def resp_ok_def reply_of_def fallback_reply_def saveMessage_def insert_thread_def
  insert_message_def touch_thread_def thread_rows_def api_message_def
  CONFIG_def or_else_def or_default_def present_def Let_def show_nat_digit fits_def has_nul_def

lemma post_chat_run:
  assumes "post_chat w req s = (res, s')"
  obtains (refused) "status res = 401 \<or> status res = 403" "trace s' = trace s" "store s' = store s"
        | (handled) "present (api_key_header req)"
            "api_key_header req = BOCHAT_API_KEY (CONFIG (process_env w))"
            "chat_handler w req s = (res, s')"
proof (cases "present (api_key_header req)")
  case False
  with assms have "res = \<lparr> status = 401, payload = ErrorJson ''Missing X-BOCHAT-API-KEY header'' None \<rparr>"
    and "s' = s"
    by (simp_all add: post_chat_def protected_def authenticateRequest_absent)
  then show ?thesis
    by (intro refused) simp_all
next
  case True
  show ?thesis
  proof (cases "api_key_header req = BOCHAT_API_KEY (CONFIG (process_env w))")
    case False
    with True assms have "res = \<lparr> status = 403, payload = ErrorJson ''Invalid API key'' None \<rparr>"
      and "s' = s\<lparr>console := console s @ [''[Auth] Invalid API key attempt from '' @ ip req]\<rparr>"
      by (simp_all add: post_chat_def protected_def authenticateRequest_mismatch)
    then show ?thesis
      by (intro refused) simp_all
  next
    case same: True
    with True assms have "chat_handler w req s = (res, s')"
      by (simp add: post_chat_authenticated)
    with True same show ?thesis
      by (rule handled)
  qed
qed

lemma overloaded_run:
  "post_chat overloaded_world demo_request init_state =
     (\<lparr> status = 500,
        payload = ErrorJson ''Something went wrong on my end. Try again in a sec.'' None \<rparr>,
      \<lparr> pool = True,
        store = \<lparr> threads = [\<lparr> t_id = ''uuid-0'', t_user_email = ''nick@taptico.com'', t_title = None,
                               t_created_at = 101, t_updated_at = 101 \<rparr>],
                  messages = [] \<rparr>,
        trace = [Query CreateSchema, Query (InsertThread ''uuid-0'' ''nick@taptico.com''),
                 Fetch (llm_request_of overloaded_world ''sk-test''
                          [\<lparr> role = ''user'', content = JStr ''Hello Bo'' \<rparr>] (JStr ''nick@taptico.com''))],
        uuids = 1,
        console = [''[Database] Connected and initialized'',
                   ''[LLM] API error: 529 - overloaded_error: Overloaded'',
                   ''[Chat] Error: LLM API error: 529''] \<rparr>)"
proof -
  have "show_nat 529 = ''529''"
    by (simp add: show_nat.simps)
  then show ?thesis
    by (simp add: post_chat_def protected_def authenticateRequest_def run_defs overloaded_world_def
        overloaded_answer_def demo_world_def demo_env_def demo_request_def init_state_def)
qed

lemma flaky_run:
  "post_chat flaky_world demo_request init_state =
     (\<lparr> status = 500,
        payload = ErrorJson ''Something went wrong on my end. Try again in a sec.'' None \<rparr>,
      \<lparr> pool = True,
        store = \<lparr> threads = [\<lparr> t_id = ''uuid-0'', t_user_email = ''nick@taptico.com'', t_title = None,
                               t_created_at = 101, t_updated_at = 101 \<rparr>],
                  messages = [] \<rparr>,
        trace = [Query CreateSchema, Query (InsertThread ''uuid-0'' ''nick@taptico.com''),
                 Fetch (llm_request_of flaky_world ''sk-test''
                          [\<lparr> role = ''user'', content = JStr ''Hello Bo'' \<rparr>] (JStr ''nick@taptico.com'')),
                 Query (InsertMessage ''uuid-1'' ''uuid-0'' ''user'' ''Hello Bo'')],
        uuids = 2,
        console = [''[Database] Connected and initialized'',
                   ''[Chat] Error: Connection terminated unexpectedly''] \<rparr>)"
  by (simp add: post_chat_def protected_def authenticateRequest_def run_defs flaky_world_def
      demo_answer_def demo_world_def demo_env_def demo_request_def init_state_def)

text \<open>
  A first turn on a fresh process: the thread is created, and the user message and the
  reply are stored in this order.
\<close>

lemma demo_run:
  "post_chat demo_world demo_request init_state =
     (\<lparr> status = 200, payload = ChatJson (JStr ''Hello.'') (JStr ''uuid-0'') \<rparr>,
      \<lparr> pool = True,
        store = \<lparr> threads = [\<lparr> t_id = ''uuid-0'', t_user_email = ''nick@taptico.com'', t_title = None,
                               t_created_at = 101, t_updated_at = 106 \<rparr>],
                  messages = [\<lparr> m_id = ''uuid-1'', m_thread_id = ''uuid-0'', m_role = ''user'',
                                 m_content = ''Hello Bo'', m_created_at = 103 \<rparr>,
                              \<lparr> m_id = ''uuid-2'', m_thread_id = ''uuid-0'', m_role = ''assistant'',
                                 m_content = ''Hello.'', m_created_at = 105 \<rparr>] \<rparr>,
        trace = [Query CreateSchema, Query (InsertThread ''uuid-0'' ''nick@taptico.com''),
                 Fetch (llm_request_of demo_world ''sk-test''
                          [\<lparr> role = ''user'', content = JStr ''Hello Bo'' \<rparr>] (JStr ''nick@taptico.com'')),
                 Query (InsertMessage ''uuid-1'' ''uuid-0'' ''user'' ''Hello Bo''),
                 Query (TouchThread ''uuid-0''),
                 Query (InsertMessage ''uuid-2'' ''uuid-0'' ''assistant'' ''Hello.''),
                 Query (TouchThread ''uuid-0'')],
        uuids = 3,
        console = [''[Database] Connected and initialized''] \<rparr>)"
  by (simp add: post_chat_def protected_def authenticateRequest_def run_defs
      demo_answer_def demo_world_def demo_env_def demo_request_def init_state_def)

section \<open>Chat turns\<close>

lemma fetches_simps [simp]:
  "fetches [] = []"
  "fetches (Query q # evs) = fetches evs"
  "fetches (Fetch rq # evs) = rq # fetches evs"
  by (simp_all add: fetches_def)

lemma overloaded_facts:
  "fetch overloaded_world rq = Responded overloaded_answer" "\<not> resp_ok overloaded_answer"
  by (simp_all add: overloaded_world_def overloaded_answer_def resp_ok_def)

subsection \<open>The provider answers with an error status\<close>

text \<open>
  C3, as stated, fails in its last part: the provider answers the request of a chat turn
  with status 529, the response is 500, and the state is not what it was: the thread that
  \<open>getOrCreateThread\<close> inserted before the call is in the store.
\<close>

theorem thread_outlives_provider_error:
  "fetches (trace (snd (post_chat overloaded_world demo_request init_state))) =
     fetches (trace init_state) @
     [llm_request_of overloaded_world ''sk-test'' [\<lparr> role = ''user'', content = JStr ''Hello Bo'' \<rparr>]
        (JStr ''nick@taptico.com'')] \<and>
   fetch overloaded_world
     (llm_request_of overloaded_world ''sk-test'' [\<lparr> role = ''user'', content = JStr ''Hello Bo'' \<rparr>]
        (JStr ''nick@taptico.com'')) = Responded overloaded_answer \<and>
   \<not> resp_ok overloaded_answer \<and>
   status (fst (post_chat overloaded_world demo_request init_state)) = 500 \<and>
   threads (store init_state) = [] \<and>
   threads (store (snd (post_chat overloaded_world demo_request init_state))) =
     [\<lparr> t_id = ''uuid-0'', t_user_email = ''nick@taptico.com'', t_title = None,
        t_created_at = 101, t_updated_at = 101 \<rparr>]"
  by (simp add: overloaded_run overloaded_facts) (simp add: init_state_def)

text \<open>
  C3, amended: when the provider was called during a \<open>POST /v1/chat\<close> request and
  answered with a status outside 200..299, the response is 500 with the fixed apology
  and, in development only, the message of the error, which names the status and not the
  body of the provider's answer; the messages table is what it was before the request
  (a thread row inserted before the call remains).
\<close>

theorem upstream_failure:
  assumes run: "post_chat w req s = (res, s')"
    and called: "fetches (trace s') = fetches (trace s) @ [rq]"
    and answer: "fetch w rq = Responded r" "\<not> resp_ok r"
  shows "status res = 500 \<and>
         payload res =
           ErrorJson ''Something went wrong on my end. Try again in a sec.''
             (if process_env w ''NODE_ENV'' = Some ''development''
              then Some (case resp_text r of Inl m \<Rightarrow> m
                         | Inr errorText \<Rightarrow> ''LLM API error: '' @ show_nat (resp_status r))
              else None) \<and>
         messages (store s') = messages (store s)"
  using run
proof (cases rule: post_chat_run)
  case refused
  with called show ?thesis by simp
next
  case handled
  from rejected_by_provider [OF handled(3) called answer] show ?thesis .
qed

theorem upstream_failure_witness:
  "status (fst (post_chat overloaded_world demo_request init_state)) = 500 \<and>
   payload (fst (post_chat overloaded_world demo_request init_state)) =
     ErrorJson ''Something went wrong on my end. Try again in a sec.'' None \<and>
   messages (store (snd (post_chat overloaded_world demo_request init_state))) = messages (store init_state)"
proof -
  have run: "post_chat overloaded_world demo_request init_state =
      (fst (post_chat overloaded_world demo_request init_state),
       snd (post_chat overloaded_world demo_request init_state))"
    by simp
  have called: "fetches (trace (snd (post_chat overloaded_world demo_request init_state))) =
      fetches (trace init_state) @
      [llm_request_of overloaded_world ''sk-test'' [\<lparr> role = ''user'', content = JStr ''Hello Bo'' \<rparr>]
         (JStr ''nick@taptico.com'')]"
    by (simp add: overloaded_run) (simp add: init_state_def)
  have dev: "process_env overloaded_world ''NODE_ENV'' = None"
    by (simp add: overloaded_world_def demo_world_def demo_env_def)
  from upstream_failure [OF run called overloaded_facts] dev show ?thesis
    by simp
qed

subsection \<open>What the provider is sent\<close>






subsection \<open>The store fails after the provider has answered\<close>

text \<open>
  C1, as stated, fails: the request passes authentication and validation, the provider is
  called once and its answer gives the reply \<open>Hello.\<close>, the store rejects the
  insertion of the user message, and the response is the 500 of the \<open>catch\<close> block,
  which carries neither the reply nor the thread identifier.
\<close>

theorem unsaved_turn_answers_500:
  "fetches (trace (snd (post_chat flaky_world demo_request init_state))) =
     [llm_request_of flaky_world ''sk-test'' [\<lparr> role = ''user'', content = JStr ''Hello Bo'' \<rparr>]
        (JStr ''nick@taptico.com'')] \<and>
   fst (read_response
          (fetch flaky_world
             (llm_request_of flaky_world ''sk-test'' [\<lparr> role = ''user'', content = JStr ''Hello Bo'' \<rparr>]
                (JStr ''nick@taptico.com''))) init_state) = Inr (JStr ''Hello.'') \<and>
   trace (snd (post_chat flaky_world demo_request init_state)) ! 3 =
     Query (InsertMessage ''uuid-1'' ''uuid-0'' ''user'' ''Hello Bo'') \<and>
   db_fail flaky_world 3 = Some ''Connection terminated unexpectedly'' \<and>
   fst (post_chat flaky_world demo_request init_state) =
     \<lparr> status = 500,
       payload = ErrorJson ''Something went wrong on my end. Try again in a sec.'' None \<rparr>"
  by (simp add: flaky_run)
     (simp add: flaky_world_def demo_world_def demo_answer_def read_response_def resp_ok_def reply_of_def
        get_prop_def)

text \<open>
  C1, amended: when a \<open>POST /v1/chat\<close> request passes authentication and
  validation, the thread is resolved and the provider call succeeds, and then persisting
  the user message or the assistant reply fails, the persistence error is logged and the
  response is status 500 with the fixed apology (and the message of the error in
  development only); the computed reply is not sent.
\<close>

theorem persistence_failure:
  assumes auth: "present (api_key_header req)"
      "api_key_header req = BOCHAT_API_KEY (CONFIG (process_env w))"
    and valid: "nonempty_string (get_prop (body req) ''message'')"
      "truthy (get_prop (body req) ''userEmail'')"
    and thread: "getOrCreateThread w (get_prop (body req) ''threadId'')
                   (get_prop (body req) ''userEmail'') s = (Inr thread, s1)"
    and llm: "callLLM w (th_messages thread @ [\<lparr> role = ''user'', content = get_prop (body req) ''message'' \<rparr>])
                (get_prop (body req) ''userEmail'') s1 = (Inr reply, s2)"
    and save: "saveMessage w (th_threadId thread) ''user'' (get_prop (body req) ''message'') s2 = (Inl e, s3) \<or>
               (\<exists>s2'. saveMessage w (th_threadId thread) ''user'' (get_prop (body req) ''message'') s2 = (Inr (), s2') \<and>
                      saveMessage w (th_threadId thread) ''assistant'' reply s2' = (Inl e, s3))"
  shows "post_chat w req s =
           (\<lparr> status = 500,
              payload = ErrorJson ''Something went wrong on my end. Try again in a sec.''
                          (if process_env w ''NODE_ENV'' = Some ''development''
                           then Some (message_of e) else None) \<rparr>,
            s3\<lparr>console := console s3 @ [''[Chat] Error: '' @ message_of e]\<rparr>)"
proof -
  have "chat_try w req s = (Inl e, s3)"
    using thread llm save by (auto simp: chat_try_valid [OF valid] await_def)
  then show ?thesis
    by (simp add: post_chat_authenticated [OF auth] chat_handler_def chat_catch_def)
qed

theorem persistence_failure_witness:
  "status (fst (post_chat flaky_world demo_request init_state)) = 500 \<and>
   payload (fst (post_chat flaky_world demo_request init_state)) =
     ErrorJson ''Something went wrong on my end. Try again in a sec.'' None \<and>
   last (console (snd (post_chat flaky_world demo_request init_state))) =
     ''[Chat] Error: Connection terminated unexpectedly''"
proof -
  let ?rq = "llm_request_of flaky_world ''sk-test'' [\<lparr> role = ''user'', content = JStr ''Hello Bo'' \<rparr>]
               (JStr ''nick@taptico.com'')"
  let ?s1 = "\<lparr> pool = True,
               store = \<lparr> threads = [\<lparr> t_id = ''uuid-0'', t_user_email = ''nick@taptico.com'',
                                      t_title = None, t_created_at = 101, t_updated_at = 101 \<rparr>],
                         messages = [] \<rparr>,
               trace = [Query CreateSchema, Query (InsertThread ''uuid-0'' ''nick@taptico.com'')],
               uuids = 1, console = [''[Database] Connected and initialized''] \<rparr>"
  let ?s2 = "?s1\<lparr>trace := trace ?s1 @ [Fetch ?rq]\<rparr>"
  let ?s3 = "?s2\<lparr>trace := trace ?s2 @ [Query (InsertMessage ''uuid-1'' ''uuid-0'' ''user'' ''Hello Bo'')],
                   uuids := 2\<rparr>"
  let ?thread = "\<lparr> th_threadId = JStr ''uuid-0'', th_messages = [] \<rparr>"
  have auth: "present (api_key_header demo_request)"
    "api_key_header demo_request = BOCHAT_API_KEY (CONFIG (process_env flaky_world))"
    by (simp_all add: demo_request_def present_def flaky_world_def demo_world_def demo_env_def CONFIG_def)
  have valid: "nonempty_string (get_prop (body demo_request) ''message'')"
    "truthy (get_prop (body demo_request) ''userEmail'')"
    by (simp_all add: demo_request_def get_prop_def)
  have thread: "getOrCreateThread flaky_world (get_prop (body demo_request) ''threadId'')
      (get_prop (body demo_request) ''userEmail'') init_state = (Inr ?thread, ?s1)"
    by (simp add: run_defs flaky_world_def demo_world_def demo_env_def demo_request_def init_state_def)
  have llm: "callLLM flaky_world
      (th_messages ?thread @ [\<lparr> role = ''user'', content = get_prop (body demo_request) ''message'' \<rparr>])
      (get_prop (body demo_request) ''userEmail'') ?s1 = (Inr (JStr ''Hello.''), ?s2)"
    by (simp add: run_defs flaky_world_def demo_world_def demo_env_def demo_request_def demo_answer_def)
  have save: "saveMessage flaky_world (th_threadId ?thread) ''user'' (get_prop (body demo_request) ''message'') ?s2 =
      (Inl (JsError ''Connection terminated unexpectedly''), ?s3)"
    by (simp add: run_defs flaky_world_def demo_world_def demo_env_def demo_request_def)
  have dev: "process_env flaky_world ''NODE_ENV'' = None"
    by (simp add: flaky_world_def demo_world_def demo_env_def)
  from persistence_failure [OF auth valid thread llm disjI1 [OF save]] dev show ?thesis
    by simp
qed

section \<open>The thread store when it is available\<close>


lemma db_query_refused:
  assumes "\<forall>n. db_fail w n = None" and "refused (store s) q"
  shows "db_query w q s = (Inl (JsError (db_message w q)), s\<lparr>trace := trace s @ [Query q]\<rparr>)"
  using assms by (simp add: db_query_def)











end
